theory Spec2Isabelle
  imports Complex_Main "HOL-Library.Word"
begin

section \<open>The chisel core: erosion of a pixel buffer and falling pebbles\<close>

text \<open>
  A shallow embedding of \<^verbatim>\<open>chisel/widgets/core/new_core.py\<close>.  Python floats are
  modelled as exact reals (rounding is outside the model), Python integers as \<open>int\<close> or
  \<open>nat\<close>, the \<^verbatim>\<open>uint8\<close> channels of the numpy image as \<open>8 word\<close>.  The Kivy
  collaborators (clock, texture, canvas, sound) are reduced to what the core reads from
  them: whether a scheduled clock event is still active, and the widget's width and height.
\<close>

subsection \<open>Module constants and the module namespace\<close>

definition GRAVITY :: real where
  "GRAVITY = 2 / 100"

definition FRICTION :: real where
  "FRICTION = 9 / 10"

definition DISLODGE_VELOCITY :: real where
  "DISLODGE_VELOCITY = 1 / 1000"

definition MAX_VELOCITY :: real where
  "MAX_VELOCITY = 2 / 10"

definition IMAGE_SCALE :: real where
  "IMAGE_SCALE = 75 / 100"

definition RADIUS :: int where
  \<comment> \<open>\<^verbatim>\<open>RADIUS = R = 1\<close>; \<^verbatim>\<open>poke\<close> reads it under the name \<^verbatim>\<open>R\<close>.\<close>
  "RADIUS = 1"

definition MIN_POWER :: real where
  "MIN_POWER = 1 / 100000"

definition CHISEL_POWER :: real where
  "CHISEL_POWER = 100"

datatype py_error = NameError string | KeyError nat

text \<open>
  The numbers bound at module level, by name.  Every other name the module binds (the
  imports, \<^verbatim>\<open>IMAGE_DIM\<close>, \<^verbatim>\<open>BACKGROUND\<close>, \<^verbatim>\<open>SOUND\<close>,
  \<^verbatim>\<open>BOULDER_IMAGE_PATHS\<close>, the function and the three classes) is spelled differently
  from each name looked up below, and none of them is a Python builtin.
\<close>

definition module_globals :: "string \<rightharpoonup> real" where
  "module_globals =
     [''GRAVITY'' \<mapsto> GRAVITY,
      ''FRICTION'' \<mapsto> FRICTION,
      ''DISLODGE_VELOCITY'' \<mapsto> DISLODGE_VELOCITY,
      ''MAX_VELOCITY'' \<mapsto> MAX_VELOCITY,
      ''IMAGE_SCALE'' \<mapsto> IMAGE_SCALE,
      ''RADIUS'' \<mapsto> of_int RADIUS,
      ''R'' \<mapsto> of_int RADIUS,
      ''MIN_POWER'' \<mapsto> MIN_POWER,
      ''CHISEL_POWER'' \<mapsto> CHISEL_POWER]"

definition load_global :: "(string \<rightharpoonup> real) \<Rightarrow> string \<Rightarrow> py_error + real" where
  \<comment> \<open>Reading a global name at run time: an unbound name raises \<^verbatim>\<open>NameError\<close>.\<close>
  "load_global g name = (case g name of None \<Rightarrow> Inl (NameError name) | Some v \<Rightarrow> Inr v)"

subsection \<open>The velocity gate\<close>

definition is_dislodged :: "real \<times> real \<Rightarrow> (real \<times> real) option" where
  \<comment> \<open>\<open>None\<close> stands for the \<^verbatim>\<open>False\<close> the source returns below the threshold.\<close>
  "is_dislodged velocity =
     (let (x, y) = velocity;
          magnitude = sqrt (x\<^sup>2 + y\<^sup>2)
      in if magnitude < DISLODGE_VELOCITY then None
         else if magnitude > MAX_VELOCITY
              then Some (x * (MAX_VELOCITY / magnitude), y * (MAX_VELOCITY / magnitude))
              else Some (x, y))"

subsection \<open>Pixels and pebbles\<close>

record pixel =
  px_x :: real
  px_y :: real
  px_z :: real
  color :: "real list"
  pos :: "real \<times> real"

definition rescale :: "pixel \<Rightarrow> real \<Rightarrow> real \<Rightarrow> pixel" where
  "rescale p screen_width screen_height =
     p\<lparr>pos := (px_x p * screen_width, px_y p * screen_height)\<rparr>"

definition Pixel_init :: "real \<Rightarrow> real \<Rightarrow> real \<Rightarrow> real \<Rightarrow> real \<Rightarrow> real list \<Rightarrow> pixel" where
  "Pixel_init x y z screen_width screen_height col =
     rescale \<lparr>px_x = x, px_y = y, px_z = z, color = col, pos = (0, 0)\<rparr>
       screen_width screen_height"

record pebble =
  index :: nat
  pixel :: pixel
  velocity :: "real \<times> real"
  update_active :: bool
    \<comment> \<open>the clock event \<^verbatim>\<open>self.update\<close>: scheduled and not cancelled\<close>

definition Pebble_init :: "nat \<Rightarrow> pixel \<Rightarrow> real \<times> real \<Rightarrow> pebble" where
  "Pebble_init i p v = \<lparr>index = i, pixel = p, velocity = v, update_active = True\<rparr>"

subsection \<open>The pixel buffer\<close>

type_synonym u8 = "8 word"

type_synonym texel = "u8 list"
  \<comment> \<open>the channel axis of the array: red, green, blue, alpha\<close>

type_synonym buffer = "texel list list"
  \<comment> \<open>the array \<^verbatim>\<open>self.image\<close> of shape \<open>(h, w, 4)\<close>, as a list of rows\<close>

definition shape_h :: "buffer \<Rightarrow> nat" where
  "shape_h img = length img"

definition shape_w :: "buffer \<Rightarrow> nat" where
  "shape_w img = (case img of [] \<Rightarrow> 0 | row # _ \<Rightarrow> length row)"

definition py_int :: "real \<Rightarrow> int" where
  \<comment> \<open>\<^verbatim>\<open>int(x)\<close> of a float: truncation towards zero\<close>
  "py_int r = (if 0 \<le> r then \<lfloor>r\<rfloor> else \<lceil>r\<rceil>)"

definition slice_index :: "int \<Rightarrow> nat \<Rightarrow> nat" where
  \<comment> \<open>how a slice bound is resolved on an axis of length \<open>n\<close>: a negative bound counts
      from the end, and the result is clipped to \<open>0..n\<close>\<close>
  "slice_index i n = (if i < 0 then nat (max 0 (i + int n)) else min (nat i) n)"

definition in_slice :: "int \<Rightarrow> int \<Rightarrow> nat \<Rightarrow> nat \<Rightarrow> bool" where
  \<comment> \<open>\<open>k\<close> is one of the positions that \<^verbatim>\<open>a[start:stop]\<close> selects on an axis of length \<open>n\<close>\<close>
  "in_slice start stop n k = (slice_index start n \<le> k \<and> k < slice_index stop n)"

definition map_window :: "(texel \<Rightarrow> texel) \<Rightarrow> (nat \<Rightarrow> bool) \<Rightarrow> (nat \<Rightarrow> bool) \<Rightarrow> buffer \<Rightarrow> buffer" where
  \<comment> \<open>an in-place write through the window of rows and columns; texels outside keep their value\<close>
  "map_window f rows cols img =
     map (\<lambda>(i, row). if rows i
                      then map (\<lambda>(j, t). if cols j then f t else t) (enumerate 0 row)
                      else row)
         (enumerate 0 img)"

definition alpha :: "texel \<Rightarrow> u8" where
  \<comment> \<open>channel \<^verbatim>\<open>-1\<close> of a texel\<close>
  "alpha t = last t"

definition rgb :: "texel \<Rightarrow> u8 list" where
  \<comment> \<open>channels \<^verbatim>\<open>:-1\<close> of a texel\<close>
  "rgb t = butlast t"

definition scale_u8 :: "u8 \<Rightarrow> u8" where
  \<comment> \<open>\<^verbatim>\<open>v * .8\<close> is a float; storing it into the \<^verbatim>\<open>uint8\<close> array truncates it.
      For each of the 256 byte values the double product truncates to the same integer as
      the exact product.\<close>
  "scale_u8 v = word_of_int (py_int (real (unat v) * (8 / 10)))"

definition darken_texel :: "texel \<Rightarrow> texel" where
  \<comment> \<open>\<^verbatim>\<open>image[.., .., :-1] = view * .8\<close>: all channels but the last\<close>
  "darken_texel t = map scale_u8 (butlast t) @ drop (length t - 1) t"

definition dark_mask :: "texel \<Rightarrow> bool" where
  \<comment> \<open>\<^verbatim>\<open>view[:, :, :-1].sum(axis=2) < 100\<close>, where \<^verbatim>\<open>view\<close> is already
      \<^verbatim>\<open>image[.., .., :-1]\<close>; the sum of \<^verbatim>\<open>uint8\<close> values accumulates in a wide
      unsigned integer\<close>
  "dark_mask t = (sum_list (map unat (butlast (butlast t))) < 100)"

definition zero_alpha :: "texel \<Rightarrow> texel" where
  \<comment> \<open>\<^verbatim>\<open>image[.., .., -1][mask] = 0\<close>\<close>
  "zero_alpha t = (if dark_mask t then t[length t - 1 := 0] else t)"

subsection \<open>The chisel widget\<close>

type_synonym ref = nat

record touch =
  spos :: "real \<times> real"
  dsx :: real
  dsy :: real

record chisel =
  image :: buffer
  pebbles :: "nat \<rightharpoonup> ref"
  width :: real
  height :: real
  tool_sel :: nat

definition poke_power ::
  "(string \<rightharpoonup> real) \<Rightarrow> real \<Rightarrow> real \<Rightarrow> real \<Rightarrow> real \<Rightarrow> real \<Rightarrow> py_error + (real \<times> real)" where
  \<comment> \<open>the first argument is the module namespace in which the global names are looked up\<close>
  "poke_power g tx ty touch_velocity pebble_x pebble_y =
     (let dx = pebble_x - tx;
          dy = pebble_y - ty;
          distance = dx\<^sup>2 + dy\<^sup>2
      in case load_global g ''CHISEL_RADIUS'' of
           Inl e \<Rightarrow> Inl e
         | Inr chisel_radius \<Rightarrow>
             if distance > chisel_radius then Inr (0, 0)
             else let distance = (if distance = 0 then 1 / 10000 else distance);
                      power = max (CHISEL_POWER * touch_velocity) MIN_POWER / distance
                  in Inr (power * dx, power * dy))"

definition image_pos :: "touch \<Rightarrow> real \<times> real" where
  \<comment> \<open>the touch position in the image's normalised coordinates\<close>
  "image_pos t =
     (let (tx, ty) = spos t
      in (1333 / 1000 * (tx - 125 / 1000), 1333 / 1000 * (ty - 1 / 10)))"

definition in_bounds :: "real \<times> real \<Rightarrow> bool" where
  "in_bounds p = (0 \<le> fst p \<and> fst p \<le> 1 \<and> 0 \<le> snd p \<and> snd p \<le> 1)"

definition pixel_index :: "buffer \<Rightarrow> real \<times> real \<Rightarrow> int \<times> int" where
  \<comment> \<open>\<^verbatim>\<open>x, y = int(x * w), int(y * h)\<close>\<close>
  "pixel_index img p =
     (py_int (fst p * real (shape_w img)), py_int (snd p * real (shape_h img)))"

definition window_rows :: "buffer \<Rightarrow> int \<Rightarrow> nat \<Rightarrow> bool" where
  \<comment> \<open>the rows selected by \<^verbatim>\<open>y - R:y + R + 1\<close>\<close>
  "window_rows img y = in_slice (y - RADIUS) (y + RADIUS + 1) (shape_h img)"

definition window_cols :: "buffer \<Rightarrow> int \<Rightarrow> nat \<Rightarrow> bool" where
  \<comment> \<open>the columns selected by \<^verbatim>\<open>x - R:x + R + 1\<close>\<close>
  "window_cols img x = in_slice (x - RADIUS) (x + RADIUS + 1) (shape_w img)"

definition erode :: "int \<times> int \<Rightarrow> buffer \<Rightarrow> buffer" where
  \<comment> \<open>the three array statements of \<^verbatim>\<open>poke\<close>: darken the window, then compute the
      mask on the darkened values (\<^verbatim>\<open>view\<close> shares the array's memory), then clear alpha\<close>
  "erode xy img =
     (let (x, y) = xy;
          darkened = map_window darken_texel (window_rows img y) (window_cols img x) img
      in map_window zero_alpha (window_rows img y) (window_cols img x) darkened)"

definition poke :: "touch \<Rightarrow> chisel \<Rightarrow> chisel" where
  \<comment> \<open>no statement of \<^verbatim>\<open>poke\<close> raises: the early return and the normal end both
      return; \<^verbatim>\<open>touch_velocity\<close> is computed and not read\<close>
  "poke t c =
     (let p = image_pos t
      in if \<not> in_bounds p then c
         else let xy = pixel_index (image c) p;
                  touch_velocity = (dsx t)\<^sup>2 + (dsy t)\<^sup>2
              in c\<lparr>image := erode xy (image c)\<rparr>)"

fun pokes :: "touch list \<Rightarrow> chisel \<Rightarrow> chisel" where
  "pokes [] c = c"
| "pokes (t # ts) c = pokes ts (poke t c)"

subsection \<open>The pebble's clock callback\<close>

definition move :: "pebble \<Rightarrow> chisel \<Rightarrow> pebble" where
  \<comment> \<open>the physics of \<^verbatim>\<open>step\<close>, up to and including \<^verbatim>\<open>rescale\<close>; the argument
      \<^verbatim>\<open>dt\<close> is not read\<close>
  "move self c =
     (let x = px_x (pixel self);
          y = px_y (pixel self);
          (vx, vy) = velocity self;
          vx = vx * FRICTION;
          vy = vy * FRICTION;
          vy = vy - GRAVITY;
          vx = (if \<not> (0 < x \<and> x < 1) then vx * (- 1) else vx);
          moved = rescale ((pixel self)\<lparr>px_x := x + vx, px_y := max 0 (y + vy)\<rparr>)
                    (width c) (height c)
      in self\<lparr>velocity := (vx, vy), pixel := moved\<rparr>)"

definition step :: "pebble \<Rightarrow> chisel \<Rightarrow> py_error + (pebble \<times> chisel)" where
  \<comment> \<open>\<^verbatim>\<open>del chisel.pebbles[self.index]\<close> raises \<^verbatim>\<open>KeyError\<close> on a missing key; the result
      of a raising call is the error alone\<close>
  "step self c =
     (let self = move self c
      in if px_y (pixel self) = 0
         then (case pebbles c (index self) of
                 None \<Rightarrow> Inl (KeyError (index self))
               | Some _ \<Rightarrow> Inr (self\<lparr>update_active := False\<rparr>,
                               c\<lparr>pebbles := (pebbles c)(index self := None)\<rparr>))
         else Inr (self, c))"

text \<open>
  The running program: the widget, and the pebble objects by reference.  The clock calls
  the \<^verbatim>\<open>step\<close> of an object as long as its event is active; a touch event calls
  \<^verbatim>\<open>poke\<close>.
\<close>

record world =
  widget :: chisel
  heap :: "ref \<rightharpoonup> pebble"

datatype event = Touch touch | Tick ref

definition fire :: "event \<Rightarrow> world \<Rightarrow> py_error + world" where
  "fire ev w =
     (case ev of
        Touch t \<Rightarrow> Inr (w\<lparr>widget := poke t (widget w)\<rparr>)
      | Tick r \<Rightarrow>
          (case heap w r of
             None \<Rightarrow> Inr w
           | Some p \<Rightarrow>
               if \<not> update_active p then Inr w
               else (case step p (widget w) of
                       Inl e \<Rightarrow> Inl e
                     | Inr (p', c') \<Rightarrow> Inr (w\<lparr>widget := c', heap := (heap w)(r \<mapsto> p')\<rparr>))))"


subsection \<open>Construction\<close>

definition Chisel_init :: "buffer \<Rightarrow> real \<Rightarrow> real \<Rightarrow> chisel" where
  \<comment> \<open>\<^verbatim>\<open>__init__\<close> and \<^verbatim>\<open>setup_canvas\<close>: the decoded image and the widget's size
      come from outside; the pebble dictionary starts empty and the tool is 0\<close>
  "Chisel_init img w h = \<lparr>image = img, pebbles = Map.empty, width = w, height = h, tool_sel = 0\<rparr>"

definition falling :: "nat \<Rightarrow> real \<times> real \<Rightarrow> real \<times> real \<Rightarrow> chisel \<Rightarrow> pebble" where
  \<comment> \<open>a pebble as \<^verbatim>\<open>Pebble(index, Pixel(x, y, 0, width, height, color), chisel, velocity)\<close>
      builds it, with an opaque white pixel\<close>
  "falling i xy v c =
     Pebble_init i (Pixel_init (fst xy) (snd xy) 0 (width c) (height c) [1, 1, 1, 1]) v"

definition touch_at :: "real \<Rightarrow> real \<Rightarrow> touch" where
  \<comment> \<open>a moving touch whose position maps to \<open>(x, y)\<close> in the image's normalised coordinates\<close>
  "touch_at x y =
     \<lparr>spos = (125 / 1000 + x * (1000 / 1333), 1 / 10 + y * (1000 / 1333)),
      dsx = 1 / 10, dsy = 1 / 10\<rparr>"

definition solid3 :: "texel \<Rightarrow> buffer" where
  \<comment> \<open>a buffer of shape \<open>(3, 3, 4)\<close> filled with one texel\<close>
  "solid3 t = [[t, t, t], [t, t, t], [t, t, t]]"

definition solid2 :: "texel \<Rightarrow> buffer" where
  \<comment> \<open>a buffer of shape \<open>(2, 2, 4)\<close> filled with one texel\<close>
  "solid2 t = [[t, t], [t, t]]"

definition running :: "chisel \<Rightarrow> world" where
  \<comment> \<open>the program right after the widget is built: no pebble object exists\<close>
  "running c = \<lparr>widget = c, heap = Map.empty\<rparr>"

section \<open>The velocity gate\<close>

lemma scaled_magnitude:
  fixes x y k :: real
  assumes "0 < sqrt (x\<^sup>2 + y\<^sup>2)" and "0 \<le> k"
  shows "sqrt ((x * (k / sqrt (x\<^sup>2 + y\<^sup>2)))\<^sup>2 + (y * (k / sqrt (x\<^sup>2 + y\<^sup>2)))\<^sup>2) = k"
proof -
  define m where "m = sqrt (x\<^sup>2 + y\<^sup>2)"
  have m2: "m\<^sup>2 = x\<^sup>2 + y\<^sup>2"
    by (simp add: m_def)
  have mpos: "0 < m"
    using assms(1) by (simp add: m_def)
  have "(x * (k / m))\<^sup>2 + (y * (k / m))\<^sup>2 = (x\<^sup>2 + y\<^sup>2) * (k / m)\<^sup>2"
    by (simp only: power_mult_distrib distrib_right)
  also have "\<dots> = m\<^sup>2 * (k / m)\<^sup>2"
    by (simp add: m2)
  also have "\<dots> = k\<^sup>2"
    using mpos by (simp add: power_divide)
  finally have "sqrt ((x * (k / m))\<^sup>2 + (y * (k / m))\<^sup>2) = sqrt (k\<^sup>2)"
    by simp
  then show ?thesis
    using assms(2) by (simp add: m_def)
qed

text \<open>
  Claim C3.  Below \<^verbatim>\<open>DISLODGE_VELOCITY\<close> the gate returns \<^verbatim>\<open>False\<close> (here
  \<open>None\<close>); above \<^verbatim>\<open>MAX_VELOCITY\<close> it returns the velocity scaled by a factor
  \<open>k\<close> with \<open>0 < k < 1\<close> (same direction), and the result has magnitude exactly
  \<^verbatim>\<open>MAX_VELOCITY\<close>; in between it returns the velocity unchanged.
\<close>

theorem is_dislodged_gate:
  fixes x y :: real
  shows "(sqrt (x\<^sup>2 + y\<^sup>2) < DISLODGE_VELOCITY \<longrightarrow> is_dislodged (x, y) = None) \<and>
         (MAX_VELOCITY < sqrt (x\<^sup>2 + y\<^sup>2) \<longrightarrow>
            (\<exists>vx vy k. is_dislodged (x, y) = Some (vx, vy) \<and>
                       sqrt (vx\<^sup>2 + vy\<^sup>2) = MAX_VELOCITY \<and>
                       0 < k \<and> k < 1 \<and> vx = x * k \<and> vy = y * k)) \<and>
         (DISLODGE_VELOCITY \<le> sqrt (x\<^sup>2 + y\<^sup>2) \<and> sqrt (x\<^sup>2 + y\<^sup>2) \<le> MAX_VELOCITY \<longrightarrow>
            is_dislodged (x, y) = Some (x, y))"
proof (intro conjI impI)
  assume "sqrt (x\<^sup>2 + y\<^sup>2) < DISLODGE_VELOCITY"
  then show "is_dislodged (x, y) = None"
    by (simp add: is_dislodged_def)
next
  assume big: "MAX_VELOCITY < sqrt (x\<^sup>2 + y\<^sup>2)"
  define k where "k = MAX_VELOCITY / sqrt (x\<^sup>2 + y\<^sup>2)"
  have "0 < MAX_VELOCITY"
    by (simp add: MAX_VELOCITY_def)
  then have mpos: "0 < sqrt (x\<^sup>2 + y\<^sup>2)"
    using big by linarith
  have notsmall: "\<not> sqrt (x\<^sup>2 + y\<^sup>2) < DISLODGE_VELOCITY"
    using big by (simp add: MAX_VELOCITY_def DISLODGE_VELOCITY_def)
  have res: "is_dislodged (x, y) = Some (x * k, y * k)"
    using big notsmall by (simp add: is_dislodged_def k_def Let_def)
  have mag: "sqrt ((x * k)\<^sup>2 + (y * k)\<^sup>2) = MAX_VELOCITY"
    unfolding k_def by (rule scaled_magnitude [OF mpos]) (simp add: MAX_VELOCITY_def)
  have kpos: "0 < k"
    using mpos by (simp add: k_def MAX_VELOCITY_def)
  have klt: "k < 1"
    using big mpos by (simp add: k_def)
  show "\<exists>vx vy k. is_dislodged (x, y) = Some (vx, vy) \<and>
                   sqrt (vx\<^sup>2 + vy\<^sup>2) = MAX_VELOCITY \<and>
                   0 < k \<and> k < 1 \<and> vx = x * k \<and> vy = y * k"
    using res mag kpos klt by blast
next
  assume "DISLODGE_VELOCITY \<le> sqrt (x\<^sup>2 + y\<^sup>2) \<and> sqrt (x\<^sup>2 + y\<^sup>2) \<le> MAX_VELOCITY"
  then show "is_dislodged (x, y) = Some (x, y)"
    by (simp add: is_dislodged_def)
qed

theorem is_dislodged_gate_witness:
  "(sqrt (0\<^sup>2 + 0\<^sup>2) < DISLODGE_VELOCITY \<and> is_dislodged (0, 0) = None) \<and>
   (MAX_VELOCITY < sqrt (1\<^sup>2 + 0\<^sup>2) \<and> is_dislodged (1, 0) = Some (2 / 10, 0)) \<and>
   (DISLODGE_VELOCITY \<le> sqrt ((1 / 10)\<^sup>2 + 0\<^sup>2) \<and> sqrt ((1 / 10)\<^sup>2 + 0\<^sup>2) \<le> MAX_VELOCITY \<and>
      is_dislodged (1 / 10, 0) = Some (1 / 10, 0))"
proof -
  have a: "sqrt (0\<^sup>2 + 0\<^sup>2) < DISLODGE_VELOCITY"
    by (simp add: DISLODGE_VELOCITY_def)
  have b: "MAX_VELOCITY < sqrt (1\<^sup>2 + 0\<^sup>2)"
    by (simp add: MAX_VELOCITY_def)
  have c: "DISLODGE_VELOCITY \<le> sqrt ((1 / 10)\<^sup>2 + 0\<^sup>2) \<and> sqrt ((1 / 10)\<^sup>2 + 0\<^sup>2) \<le> MAX_VELOCITY"
    by (simp add: MAX_VELOCITY_def DISLODGE_VELOCITY_def)
  have b': "is_dislodged (1, 0) = Some (2 / 10, 0)"
    by (simp add: is_dislodged_def MAX_VELOCITY_def DISLODGE_VELOCITY_def)
  show ?thesis
    using a b c b' is_dislodged_gate [of 0 0] is_dislodged_gate [of "1 / 10" 0] is_dislodged_gate [of 1 0]
    by simp
qed

section \<open>The pebble's step\<close>

lemma move_velocity:
  "velocity (move p c) =
     (if 0 < px_x (pixel p) \<and> px_x (pixel p) < 1
      then fst (velocity p) * FRICTION
      else - (fst (velocity p) * FRICTION),
      snd (velocity p) * FRICTION - GRAVITY)"
  by (simp add: move_def Let_def split_beta)

lemma move_position:
  "px_x (pixel (move p c)) = px_x (pixel p) + fst (velocity (move p c)) \<and>
   px_y (pixel (move p c)) = max 0 (px_y (pixel p) + snd (velocity (move p c)))"
  by (simp add: move_def Let_def split_beta rescale_def)

lemma move_index: "index (move p c) = index p"
  by (simp add: move_def Let_def split_beta)


lemma step_cases:
  "step p c =
     (if px_y (pixel (move p c)) = 0
      then (case pebbles c (index p) of
              None \<Rightarrow> Inl (KeyError (index p))
            | Some r \<Rightarrow> Inr ((move p c)\<lparr>update_active := False\<rparr>,
                             c\<lparr>pebbles := (pebbles c)(index p := None)\<rparr>))
      else Inr (move p c, c))"
  by (simp add: step_def Let_def move_index split: option.splits)

lemma friction_gravity_bound:
  fixes a b :: real
  assumes "a\<^sup>2 + b\<^sup>2 \<le> (2 / 10)\<^sup>2"
  shows "(a * (9 / 10))\<^sup>2 + (b * (9 / 10) - 2 / 100)\<^sup>2 \<le> (2 / 10)\<^sup>2"
proof -
  have "b\<^sup>2 \<le> (2 / 10)\<^sup>2"
    using assms by (smt (verit) zero_le_power2)
  then have "\<bar>b\<bar> \<le> 2 / 10"
    by (simp add: abs_le_square_iff [symmetric])
  then have lin: "- b \<le> 2 / 10"
    by linarith
  have "(a * (9 / 10))\<^sup>2 + (b * (9 / 10) - 2 / 100)\<^sup>2 =
          (81 / 100) * (a\<^sup>2 + b\<^sup>2) + (36 / 1000) * (- b) + 4 / 10000"
    by (simp add: power2_eq_square algebra_simps)
  also have "\<dots> \<le> (81 / 100) * (2 / 10)\<^sup>2 + (36 / 1000) * (2 / 10) + 4 / 10000"
    using assms lin by (intro add_mono mult_left_mono) simp_all
  also have "\<dots> = (2 / 10)\<^sup>2"
    by (simp add: power2_eq_square)
  finally show ?thesis .
qed

lemma move_speed_bound:
  assumes "sqrt ((fst (velocity p))\<^sup>2 + (snd (velocity p))\<^sup>2) \<le> MAX_VELOCITY"
  shows "sqrt ((fst (velocity (move p c)))\<^sup>2 + (snd (velocity (move p c)))\<^sup>2) \<le> MAX_VELOCITY"
proof -
  define a where "a = fst (velocity p)"
  define b where "b = snd (velocity p)"
  have "sqrt (a\<^sup>2 + b\<^sup>2) \<le> 2 / 10"
    using assms by (simp add: a_def b_def MAX_VELOCITY_def)
  then have "a\<^sup>2 + b\<^sup>2 \<le> (2 / 10)\<^sup>2"
    by (rule sqrt_le_D)
  then have le: "(a * (9 / 10))\<^sup>2 + (b * (9 / 10) - 2 / 100)\<^sup>2 \<le> (2 / 10)\<^sup>2"
    by (rule friction_gravity_bound)
  have "sqrt ((a * (9 / 10))\<^sup>2 + (b * (9 / 10) - 2 / 100)\<^sup>2) \<le> sqrt ((2 / 10)\<^sup>2)"
    using le by (simp only: real_sqrt_le_iff)
  then have "sqrt ((a * (9 / 10))\<^sup>2 + (b * (9 / 10) - 2 / 100)\<^sup>2) \<le> 2 / 10"
    by simp
  then show ?thesis
    by (simp add: move_velocity a_def b_def FRICTION_def GRAVITY_def MAX_VELOCITY_def)
qed


lemma step_success_velocity:
  "step p c = Inr (p', c') \<Longrightarrow> velocity p' = velocity (move p c)"
  by (auto simp: step_cases split: if_splits option.splits)

text \<open>
  Claim C10.  A step keeps the speed within \<^verbatim>\<open>MAX_VELOCITY\<close>: friction scales the
  velocity by 0.9 and gravity adds at most 0.02 to its magnitude, and
  \<open>0.9 * 0.2 + 0.02 = 0.2\<close>; the wall bounce only changes a sign.
\<close>

theorem step_preserves_speed_bound:
  assumes "sqrt ((fst (velocity p))\<^sup>2 + (snd (velocity p))\<^sup>2) \<le> MAX_VELOCITY"
  shows "sqrt ((fst (velocity (move p c)))\<^sup>2 + (snd (velocity (move p c)))\<^sup>2) \<le> MAX_VELOCITY \<and>
         (\<forall>p' c'. step p c = Inr (p', c') \<longrightarrow>
            sqrt ((fst (velocity p'))\<^sup>2 + (snd (velocity p'))\<^sup>2) \<le> MAX_VELOCITY)"
  using move_speed_bound [OF assms, of c] by (auto dest: step_success_velocity)

theorem step_preserves_speed_bound_witness:
  "sqrt ((fst (velocity (falling 0 (1 / 2, 1 / 2) (0, - (2 / 10)) (Chisel_init [] 1 1))))\<^sup>2 +
         (snd (velocity (falling 0 (1 / 2, 1 / 2) (0, - (2 / 10)) (Chisel_init [] 1 1))))\<^sup>2)
     \<le> MAX_VELOCITY \<and>
   step (falling 0 (1 / 2, 1 / 2) (0, - (2 / 10)) (Chisel_init [] 1 1)) (Chisel_init [] 1 1) =
     Inr (move (falling 0 (1 / 2, 1 / 2) (0, - (2 / 10)) (Chisel_init [] 1 1)) (Chisel_init [] 1 1),
          Chisel_init [] 1 1) \<and>
   velocity (move (falling 0 (1 / 2, 1 / 2) (0, - (2 / 10)) (Chisel_init [] 1 1)) (Chisel_init [] 1 1))
     = (0, - (2 / 10)) \<and>
   sqrt ((fst (velocity (move (falling 0 (1 / 2, 1 / 2) (0, - (2 / 10)) (Chisel_init [] 1 1))
                          (Chisel_init [] 1 1))))\<^sup>2 +
         (snd (velocity (move (falling 0 (1 / 2, 1 / 2) (0, - (2 / 10)) (Chisel_init [] 1 1))
                          (Chisel_init [] 1 1))))\<^sup>2)
     \<le> MAX_VELOCITY"
proof -
  have h: "sqrt ((fst (velocity (falling 0 (1 / 2, 1 / 2) (0, - (2 / 10)) (Chisel_init [] 1 1))))\<^sup>2 +
         (snd (velocity (falling 0 (1 / 2, 1 / 2) (0, - (2 / 10)) (Chisel_init [] 1 1))))\<^sup>2)
     \<le> MAX_VELOCITY"
    by (simp add: falling_def Pebble_init_def MAX_VELOCITY_def)
  have v: "velocity (move (falling 0 (1 / 2, 1 / 2) (0, - (2 / 10)) (Chisel_init [] 1 1)) (Chisel_init [] 1 1))
     = (0, - (2 / 10))"
    by (simp add: move_velocity falling_def Pebble_init_def Pixel_init_def rescale_def
        FRICTION_def GRAVITY_def)
  have y: "px_y (pixel (move (falling 0 (1 / 2, 1 / 2) (0, - (2 / 10)) (Chisel_init [] 1 1)) (Chisel_init [] 1 1))) = 3 / 10"
    by (simp add: move_def Let_def falling_def Pebble_init_def Pixel_init_def rescale_def
        Chisel_init_def FRICTION_def GRAVITY_def)
  have s: "step (falling 0 (1 / 2, 1 / 2) (0, - (2 / 10)) (Chisel_init [] 1 1)) (Chisel_init [] 1 1) =
     Inr (move (falling 0 (1 / 2, 1 / 2) (0, - (2 / 10)) (Chisel_init [] 1 1)) (Chisel_init [] 1 1),
          Chisel_init [] 1 1)"
    using y by (simp add: step_cases)
  show ?thesis
    using h v s step_preserves_speed_bound [OF h, of "Chisel_init [] 1 1"] by simp
qed

text \<open>
  Claim C4, as the code has it.  The horizontal velocity, after friction, is negated exactly
  when the position \<^emph>\<open>before\<close> the step is not strictly inside \<open>(0, 1)\<close>; the position
  the particle moves to is not looked at.
\<close>

theorem step_bounce_on_current_position:
  "fst (velocity (move p c)) =
     (if 0 < px_x (pixel p) \<and> px_x (pixel p) < 1
      then fst (velocity p) * FRICTION
      else - (fst (velocity p) * FRICTION)) \<and>
   px_x (pixel (move p c)) = px_x (pixel p) + fst (velocity (move p c)) \<and>
   (\<forall>p' c'. step p c = Inr (p', c') \<longrightarrow> velocity p' = velocity (move p c))"
  by (auto simp: move_velocity move_position dest: step_success_velocity)

theorem step_bounce_on_current_position_witness:
  "step (falling 0 (99 / 100, 1 / 2) (2 / 100, 0) (Chisel_init [] 1 1)) (Chisel_init [] 1 1) =
     Inr (move (falling 0 (99 / 100, 1 / 2) (2 / 100, 0) (Chisel_init [] 1 1)) (Chisel_init [] 1 1),
          Chisel_init [] 1 1) \<and>
   fst (velocity (move (falling 0 (99 / 100, 1 / 2) (2 / 100, 0) (Chisel_init [] 1 1))
                    (Chisel_init [] 1 1))) = 18 / 1000 \<and>
   px_x (pixel (move (falling 0 (99 / 100, 1 / 2) (2 / 100, 0) (Chisel_init [] 1 1))
                  (Chisel_init [] 1 1))) = 1008 / 1000 \<and>
   fst (velocity (move (falling 0 (1008 / 1000, 48 / 100) (18 / 1000, - (2 / 100)) (Chisel_init [] 1 1))
                    (Chisel_init [] 1 1))) = - (162 / 10000) \<and>
   px_x (pixel (move (falling 0 (1008 / 1000, 48 / 100) (18 / 1000, - (2 / 100)) (Chisel_init [] 1 1))
                  (Chisel_init [] 1 1))) = 9918 / 10000"
proof -
  have y: "px_y (pixel (move (falling 0 (99 / 100, 1 / 2) (2 / 100, 0) (Chisel_init [] 1 1))
                          (Chisel_init [] 1 1))) = 48 / 100"
    by (simp add: move_def Let_def falling_def Pebble_init_def Pixel_init_def rescale_def
        Chisel_init_def FRICTION_def GRAVITY_def)
  have s: "step (falling 0 (99 / 100, 1 / 2) (2 / 100, 0) (Chisel_init [] 1 1)) (Chisel_init [] 1 1) =
     Inr (move (falling 0 (99 / 100, 1 / 2) (2 / 100, 0) (Chisel_init [] 1 1)) (Chisel_init [] 1 1),
          Chisel_init [] 1 1)"
    using y by (simp add: step_cases)
  show ?thesis
    using s
      step_bounce_on_current_position
        [of "falling 0 (99 / 100, 1 / 2) (2 / 100, 0) (Chisel_init [] 1 1)" "Chisel_init [] 1 1"]
      step_bounce_on_current_position
        [of "falling 0 (1008 / 1000, 48 / 100) (18 / 1000, - (2 / 100)) (Chisel_init [] 1 1)"
            "Chisel_init [] 1 1"]
    by (simp add: FRICTION_def falling_def Pebble_init_def Pixel_init_def rescale_def)
qed

text \<open>
  The claim as written fails on its own example: at \<open>x = 0.99\<close> with \<open>vx = 0.02\<close> the
  step leaves the sign of \<open>vx\<close> alone (it becomes \<open>0.018\<close>), although the particle moves
  to \<open>x = 1.008\<close>, outside \<open>[0, 1]\<close>.
\<close>

theorem step_bounce_counterexample:
  "px_x (pixel (falling 0 (99 / 100, 1 / 2) (2 / 100, 0) (Chisel_init [] 1 1))) = 99 / 100 \<and>
   fst (velocity (falling 0 (99 / 100, 1 / 2) (2 / 100, 0) (Chisel_init [] 1 1))) = 2 / 100 \<and>
   step (falling 0 (99 / 100, 1 / 2) (2 / 100, 0) (Chisel_init [] 1 1)) (Chisel_init [] 1 1) =
     Inr (move (falling 0 (99 / 100, 1 / 2) (2 / 100, 0) (Chisel_init [] 1 1)) (Chisel_init [] 1 1),
          Chisel_init [] 1 1) \<and>
   fst (velocity (move (falling 0 (99 / 100, 1 / 2) (2 / 100, 0) (Chisel_init [] 1 1))
                    (Chisel_init [] 1 1))) = 18 / 1000 \<and>
   px_x (pixel (move (falling 0 (99 / 100, 1 / 2) (2 / 100, 0) (Chisel_init [] 1 1))
                  (Chisel_init [] 1 1))) = 1008 / 1000 \<and>
   \<not> (99 / 100 + 18 / 1000 \<le> (1::real))"
proof -
  have m: "velocity (move (falling 0 (99 / 100, 1 / 2) (2 / 100, 0) (Chisel_init [] 1 1)) (Chisel_init [] 1 1))
     = (18 / 1000, - (2 / 100))"
    by (simp add: move_velocity falling_def Pebble_init_def Pixel_init_def rescale_def
        FRICTION_def GRAVITY_def)
  have y: "px_y (pixel (move (falling 0 (99 / 100, 1 / 2) (2 / 100, 0) (Chisel_init [] 1 1))
                          (Chisel_init [] 1 1))) = 48 / 100"
    by (simp add: move_def Let_def falling_def Pebble_init_def Pixel_init_def rescale_def
        Chisel_init_def FRICTION_def GRAVITY_def)
  have x: "px_x (pixel (move (falling 0 (99 / 100, 1 / 2) (2 / 100, 0) (Chisel_init [] 1 1))
                          (Chisel_init [] 1 1))) = 1008 / 1000"
    by (simp add: move_def Let_def falling_def Pebble_init_def Pixel_init_def rescale_def
        Chisel_init_def FRICTION_def GRAVITY_def)
  have s: "step (falling 0 (99 / 100, 1 / 2) (2 / 100, 0) (Chisel_init [] 1 1)) (Chisel_init [] 1 1) =
     Inr (move (falling 0 (99 / 100, 1 / 2) (2 / 100, 0) (Chisel_init [] 1 1)) (Chisel_init [] 1 1),
          Chisel_init [] 1 1)"
    using y by (simp add: step_cases)
  show ?thesis
    using s m x by (simp add: falling_def Pebble_init_def Pixel_init_def rescale_def)
qed


section \<open>Landing\<close>

lemma poke_pebbles: "pebbles (poke t c) = pebbles c"
  by (simp add: poke_def Let_def)









section \<open>The window write\<close>

lemma length_map_window [simp]: "length (map_window f rows cols img) = length img"
  by (simp add: map_window_def)

lemma nth_map_window:
  assumes "i < length img"
  shows "map_window f rows cols img ! i =
           (if rows i then map (\<lambda>(j, t). if cols j then f t else t) (enumerate 0 (img ! i))
            else img ! i)"
  using assms by (simp add: map_window_def nth_enumerate_eq)

lemma length_nth_map_window [simp]:
  "i < length img \<Longrightarrow> length (map_window f rows cols img ! i) = length (img ! i)"
  by (simp add: nth_map_window)

lemma nth_nth_map_window:
  assumes "i < length img" and "j < length (img ! i)"
  shows "map_window f rows cols img ! i ! j =
           (if rows i \<and> cols j then f (img ! i ! j) else img ! i ! j)"
  using assms by (simp add: nth_map_window nth_enumerate_eq)

lemma shape_h_map_window [simp]: "shape_h (map_window f rows cols img) = shape_h img"
  by (simp add: shape_h_def)

lemma shape_w_map_window [simp]: "shape_w (map_window f rows cols img) = shape_w img"
  by (cases img) (simp_all add: shape_w_def map_window_def)

section \<open>Erosion of one texel\<close>

lemma floor_four_fifths: "\<lfloor>real n * (8 / 10)\<rfloor> = int (4 * n div 5)"
proof -
  have "real n * (8 / 10) = real (4 * n) / real 5"
    by simp
  then show ?thesis
    by (simp only: floor_divide_of_nat_eq)
qed

lemma scale_u8_div: "scale_u8 v = word_of_nat (4 * unat v div 5)"
proof -
  have "0 \<le> real (unat v)"
    by (rule of_nat_0_le_iff)
  then have "0 \<le> real (unat v) * (8 / 10)"
    by (rule mult_nonneg_nonneg) simp
  then have "py_int (real (unat v) * (8 / 10)) = int (4 * unat v div 5)"
    by (simp only: py_int_def if_True floor_four_fifths)
  then show ?thesis
    by (simp only: scale_u8_def of_int_of_nat_eq)
qed

lemma alpha_darken_texel [simp]: "alpha (darken_texel t) = alpha t"
  by (cases t rule: rev_cases) (simp_all add: darken_texel_def alpha_def)

lemma rgb_darken_texel [simp]: "rgb (darken_texel t) = map scale_u8 (rgb t)"
  by (cases t rule: rev_cases) (simp_all add: darken_texel_def rgb_def)

lemma length_darken_texel [simp]: "length (darken_texel t) = length t"
  by (cases t rule: rev_cases) (simp_all add: darken_texel_def)

lemma length_zero_alpha [simp]: "length (zero_alpha t) = length t"
  by (simp add: zero_alpha_def)

lemma rgb_zero_alpha [simp]: "rgb (zero_alpha t) = rgb t"
  by (cases t rule: rev_cases) (simp_all add: zero_alpha_def rgb_def)

lemma alpha_zero_alpha: "alpha (zero_alpha t) = (if dark_mask t \<and> t \<noteq> [] then 0 else alpha t)"
  by (cases t rule: rev_cases) (simp_all add: zero_alpha_def alpha_def)

lemma alpha_eroded_le: "alpha (zero_alpha (darken_texel t)) \<le> alpha t"
proof -
  have "alpha (zero_alpha (darken_texel t)) = 0 \<or>
        alpha (zero_alpha (darken_texel t)) = alpha t"
    by (simp add: alpha_zero_alpha)
  then show ?thesis
    by auto
qed

section \<open>Erosion of the buffer\<close>

lemma length_erode [simp]: "length (erode xy img) = length img"
  by (simp add: erode_def split_beta Let_def)

lemma length_nth_erode [simp]:
  "i < length img \<Longrightarrow> length (erode xy img ! i) = length (img ! i)"
  by (simp add: erode_def split_beta Let_def)

lemma nth_nth_erode:
  assumes "i < length img" and "j < length (img ! i)"
  shows "erode (x, y) img ! i ! j =
           (if window_rows img y i \<and> window_cols img x j
            then zero_alpha (darken_texel (img ! i ! j))
            else img ! i ! j)"
  using assms by (simp add: erode_def Let_def nth_nth_map_window)

lemma shape_erode [simp]: "shape_h (erode xy img) = shape_h img" "shape_w (erode xy img) = shape_w img"
  by (simp_all add: erode_def split_beta Let_def)

lemma image_poke:
  "image (poke t c) =
     (if in_bounds (image_pos t) then erode (pixel_index (image c) (image_pos t)) (image c)
      else image c)"
  by (simp add: poke_def Let_def)

lemma length_image_poke [simp]: "length (image (poke t c)) = length (image c)"
  by (simp add: image_poke)

lemma length_nth_image_poke [simp]:
  "i < length (image c) \<Longrightarrow> length (image (poke t c) ! i) = length (image c ! i)"
  by (simp add: image_poke)

lemma alpha_poke_le:
  assumes "i < length (image c)" and "j < length (image c ! i)"
  shows "alpha (image (poke t c) ! i ! j) \<le> alpha (image c ! i ! j)"
proof (cases "in_bounds (image_pos t)")
  case True
  obtain x y where xy: "pixel_index (image c) (image_pos t) = (x, y)"
    by (cases "pixel_index (image c) (image_pos t)")
  show ?thesis
    using assms True by (simp add: image_poke xy nth_nth_erode alpha_eroded_le)
next
  case False
  then show ?thesis
    by (simp add: image_poke)
qed

lemma pokes_append: "pokes (ts @ us) c = pokes us (pokes ts c)"
  by (induction ts arbitrary: c) simp_all

lemma length_image_pokes [simp]: "length (image (pokes ts c)) = length (image c)"
  by (induction ts arbitrary: c) simp_all

lemma length_nth_image_pokes [simp]:
  "i < length (image c) \<Longrightarrow> length (image (pokes ts c) ! i) = length (image c ! i)"
  by (induction ts arbitrary: c) simp_all

lemma alpha_pokes_le:
  assumes "i < length (image c)" and "j < length (image c ! i)"
  shows "alpha (image (pokes ts c) ! i ! j) \<le> alpha (image c ! i ! j)"
  using assms
proof (induction ts arbitrary: c)
  case Nil
  then show ?case by simp
next
  case (Cons t ts)
  have "alpha (image (pokes ts (poke t c)) ! i ! j) \<le> alpha (image (poke t c) ! i ! j)"
    using Cons.prems by (intro Cons.IH) simp_all
  also have "\<dots> \<le> alpha (image c ! i ! j)"
    using Cons.prems by (rule alpha_poke_le)
  finally show ?case
    by simp
qed

text \<open>
  Claim C8.  At every coordinate of the buffer the alpha value never rises along a sequence
  of pokes: after any further pokes \<open>us\<close> it is at most what it was after \<open>ts\<close>, and an
  alpha of 0 stays 0.
\<close>

theorem alpha_never_rises:
  assumes "i < length (image c)" and "j < length (image c ! i)"
  shows "alpha (image (pokes (ts @ us) c) ! i ! j) \<le> alpha (image (pokes ts c) ! i ! j) \<and>
         (alpha (image (pokes ts c) ! i ! j) = 0 \<longrightarrow>
            alpha (image (pokes (ts @ us) c) ! i ! j) = 0)"
proof -
  have "alpha (image (pokes us (pokes ts c)) ! i ! j) \<le> alpha (image (pokes ts c) ! i ! j)"
    using assms by (intro alpha_pokes_le) simp_all
  then show ?thesis
    by (auto simp: pokes_append)
qed

section \<open>Evaluated pokes\<close>

lemmas poke_eval = image_poke image_pos_def in_bounds_def pixel_index_def py_int_def
  erode_def map_window_def window_rows_def window_cols_def in_slice_def slice_index_def
  shape_w_def shape_h_def RADIUS_def zero_alpha_def dark_mask_def darken_texel_def scale_u8_div
  Chisel_init_def touch_at_def solid3_def solid2_def running_def

lemma image_pos_touch_at: "image_pos (touch_at x y) = (x, y)"
  by (simp add: image_pos_def touch_at_def)

lemma eroded_rgba:
  "zero_alpha (darken_texel [r, g, b, a]) =
     [scale_u8 r, scale_u8 g, scale_u8 b,
      if unat (scale_u8 r) + unat (scale_u8 g) < 100 then 0 else a]"
  by (simp add: zero_alpha_def darken_texel_def dark_mask_def)

lemma rgb_eroded:
  assumes "i < length img" and "j < length (img ! i)"
  shows "rgb (erode (x, y) img ! i ! j) =
           (if window_rows img y i \<and> window_cols img x j
            then map scale_u8 (rgb (img ! i ! j)) else rgb (img ! i ! j))"
  using assms by (simp add: nth_nth_erode)

lemma window_cols_inside:
  assumes "1 \<le> x"
  shows "window_cols img x j \<longleftrightarrow> x - 1 \<le> int j \<and> int j \<le> x + 1 \<and> j < shape_w img"
  using assms by (auto simp: window_cols_def in_slice_def slice_index_def RADIUS_def)

lemma window_rows_inside:
  assumes "1 \<le> y"
  shows "window_rows img y i \<longleftrightarrow> y - 1 \<le> int i \<and> int i \<le> y + 1 \<and> i < shape_h img"
  using assms by (auto simp: window_rows_def in_slice_def slice_index_def RADIUS_def)

lemma window_cols_left_edge:
  "window_cols img 0 j \<longleftrightarrow> shape_w img - 1 \<le> j \<and> j < min 2 (shape_w img)"
  by (auto simp: window_cols_def in_slice_def slice_index_def RADIUS_def)

lemma window_rows_bottom_edge:
  "window_rows img 0 i \<longleftrightarrow> shape_h img - 1 \<le> i \<and> i < min 2 (shape_h img)"
  by (auto simp: window_rows_def in_slice_def slice_index_def RADIUS_def)

text \<open>
  Claim C5 at a failing input.  On a buffer of blue texels \<open>(40, 40, 200, 255)\<close> a poke at the
  centre darkens them to \<open>(32, 32, 160)\<close>, whose three channels sum to 224, not below 100;
  the code still clears alpha, because its mask sums the first two channels only.
\<close>

theorem poke_mask_ignores_blue:
  "image (poke (touch_at (1 / 2) (1 / 2))
     (Chisel_init (solid3 [40, 40, 200, 255]) 1 1)) =
     solid3 [32, 32, 160, 0] \<and>
   sum_list (map unat (rgb [32, 32, 160, 0])) = 224 \<and>
   sum_list (map unat (butlast (rgb [32, 32, 160, 0]))) = 64"
  by (simp add: poke_eval rgb_def)

text \<open>
  Claim C6 at a failing input.  A poke that maps to pixel column 0 asks for the columns
  \<^verbatim>\<open>-1:2\<close>; the negative start counts from the right end, the slice is empty on a buffer
  three texels wide, and nothing is darkened.
\<close>

theorem poke_left_edge_darkens_nothing:
  "in_bounds (image_pos (touch_at 0 (1 / 2))) \<and>
   pixel_index (solid3 [255, 255, 255, 255])
     (image_pos (touch_at 0 (1 / 2))) = (0, 1) \<and>
   image (poke (touch_at 0 (1 / 2))
     (Chisel_init (solid3 [255, 255, 255, 255]) 1 1)) =
     (solid3 [255, 255, 255, 255])"
  by (simp add: poke_eval)

text \<open>
  Claim C1 at a failing input.  A poke at the centre of a dark buffer erodes the window
  (the darkened channels sum to 72 and alpha is cleared), and that is all it does: the
  dictionary of pebbles and the set of pebble objects are as empty as before.
\<close>

theorem poke_spawns_no_pebble:
  "in_bounds (image_pos (touch_at (1 / 2) (1 / 2))) \<and>
   image (poke (touch_at (1 / 2) (1 / 2)) (Chisel_init (solid3 [30, 30, 30, 255]) 1 1)) = solid3 [24, 24, 24, 0] \<and>
   pebbles (poke (touch_at (1 / 2) (1 / 2)) (Chisel_init (solid3 [30, 30, 30, 255]) 1 1)) = Map.empty \<and>
   fire (Touch (touch_at (1 / 2) (1 / 2))) (running (Chisel_init (solid3 [30, 30, 30, 255]) 1 1)) = Inr (running (poke (touch_at (1 / 2) (1 / 2)) (Chisel_init (solid3 [30, 30, 30, 255]) 1 1))) \<and>
   heap (running (poke (touch_at (1 / 2) (1 / 2)) (Chisel_init (solid3 [30, 30, 30, 255]) 1 1))) = Map.empty"
proof -
  have "pebbles (Chisel_init (solid3 [30, 30, 30, 255]) 1 1) = Map.empty"
    by (simp add: Chisel_init_def)
  then show ?thesis
    by (simp add: poke_pebbles fire_def running_def) (simp add: poke_eval)
qed

section \<open>Pokes that change nothing\<close>

lemma poke_out_of_bounds: "\<not> in_bounds (image_pos t) \<Longrightarrow> poke t c = c"
  by (simp add: poke_def)

text \<open>
  Claim C7, as the code has it.  A poke whose mapped position is outside the unit square
  returns normally at the guard and leaves the widget (buffer and pebbles) and the pebble
  objects as they were.
\<close>

theorem poke_noop_outside:
  assumes "\<not> in_bounds (image_pos t)"
  shows "poke t (widget w) = widget w \<and> fire (Touch t) w = Inr w"
proof -
  have "poke t (widget w) = widget w"
    using assms by (rule poke_out_of_bounds)
  then show ?thesis
    by (simp add: fire_def)
qed

theorem poke_noop_outside_witness:
  "image_pos (touch_at (- (1 / 10)) (1 / 2)) = (- (1 / 10), 1 / 2) \<and>
   \<not> in_bounds (image_pos (touch_at (- (1 / 10)) (1 / 2))) \<and>
   poke (touch_at (- (1 / 10)) (1 / 2))
     (widget (running (Chisel_init (solid3 [255, 255, 255, 255]) 1 1))) =
   widget (running (Chisel_init (solid3 [255, 255, 255, 255]) 1 1)) \<and>
   fire (Touch (touch_at (- (1 / 10)) (1 / 2)))
     (running (Chisel_init (solid3 [255, 255, 255, 255]) 1 1)) =
   Inr (running (Chisel_init (solid3 [255, 255, 255, 255]) 1 1))"
proof -
  have p: "image_pos (touch_at (- (1 / 10)) (1 / 2)) = (- (1 / 10), 1 / 2)"
    by (rule image_pos_touch_at)
  have a: "\<not> in_bounds (image_pos (touch_at (- (1 / 10)) (1 / 2)))"
    by (simp add: image_pos_touch_at in_bounds_def)
  show ?thesis
    using p a
      poke_noop_outside [OF a, of "running (Chisel_init (solid3 [255, 255, 255, 255]) 1 1)"]
    by blast
qed

text \<open>
  The claim as written fails where the mapped position is exactly 1: the pixel column is
  \<open>w\<close>, one past the last column of the buffer, and the poke still erodes the last column.
\<close>

theorem poke_past_last_column_counterexample:
  "in_bounds (image_pos (touch_at 1 (1 / 2))) \<and>
   shape_w (solid2 [255, 255, 255, 255]) = 2 \<and>
   pixel_index (solid2 [255, 255, 255, 255])
     (image_pos (touch_at 1 (1 / 2))) = (2, 1) \<and>
   image (poke (touch_at 1 (1 / 2))
     (Chisel_init (solid2 [255, 255, 255, 255]) 1 1)) =
     [[[255, 255, 255, 255], [204, 204, 204, 255]], [[255, 255, 255, 255], [204, 204, 204, 255]]] \<and>
   image (poke (touch_at 1 (1 / 2))
     (Chisel_init (solid2 [255, 255, 255, 255]) 1 1)) \<noteq>
   image (Chisel_init (solid2 [255, 255, 255, 255]) 1 1)"
  by (simp add: poke_eval)

section \<open>Alpha along a sequence of pokes\<close>

theorem alpha_never_rises_witness:
  "1 < length (image (Chisel_init (solid3 [40, 40, 200, 255]) 1 1)) \<and>
   1 < length (image (Chisel_init (solid3 [40, 40, 200, 255]) 1 1) ! 1) \<and>
   alpha (image (Chisel_init (solid3 [40, 40, 200, 255]) 1 1) ! 1 ! 1) = 255 \<and>
   alpha (image (pokes ([] @ [(touch_at (1 / 2) (1 / 2))])
     (Chisel_init (solid3 [40, 40, 200, 255]) 1 1)) ! 1 ! 1) = 0 \<and>
   alpha (image (pokes ([(touch_at (1 / 2) (1 / 2))] @ [(touch_at (1 / 2) (1 / 2))])
     (Chisel_init (solid3 [40, 40, 200, 255]) 1 1)) ! 1 ! 1) = 0"
proof -
  have i: "1 < length (image (Chisel_init (solid3 [40, 40, 200, 255]) 1 1))"
    by (simp add: Chisel_init_def solid3_def)
  have j: "1 < length (image (Chisel_init (solid3 [40, 40, 200, 255]) 1 1) ! 1)"
    by (simp add: Chisel_init_def solid3_def)
  have a: "alpha (image (Chisel_init (solid3 [40, 40, 200, 255]) 1 1) ! 1 ! 1) = 255"
    by (simp add: Chisel_init_def alpha_def solid3_def)
  have b: "alpha (image (pokes [(touch_at (1 / 2) (1 / 2))]
     (Chisel_init (solid3 [40, 40, 200, 255]) 1 1)) ! 1 ! 1) = 0"
    by (simp add: poke_eval alpha_def)
  show ?thesis
    using i j a b
      alpha_never_rises [OF i j, of "[]" "[(touch_at (1 / 2) (1 / 2))]"]
      alpha_never_rises [OF i j, of "[(touch_at (1 / 2) (1 / 2))]" "[(touch_at (1 / 2) (1 / 2))]"]
    by simp
qed

section \<open>The poke force\<close>

lemma poke_power_bound_radius:
  assumes "g ''CHISEL_RADIUS'' = Some r"
  shows "poke_power g tx ty v px py =
           Inr (if (px - tx)\<^sup>2 + (py - ty)\<^sup>2 > r then (0, 0)
                else if px = tx \<and> py = ty then (0, 0)
                else (max (CHISEL_POWER * v) MIN_POWER / ((px - tx)\<^sup>2 + (py - ty)\<^sup>2) * (px - tx),
                      max (CHISEL_POWER * v) MIN_POWER / ((px - tx)\<^sup>2 + (py - ty)\<^sup>2) * (py - ty)))"
proof -
  have z: "(px - tx)\<^sup>2 + (py - ty)\<^sup>2 = 0 \<longleftrightarrow> px = tx \<and> py = ty"
    by (simp add: sum_power2_eq_zero_iff)
  show ?thesis
    using assms z by (auto simp: poke_power_def load_global_def Let_def)
qed

text \<open>
  Claim C2 on the code.  The module never binds \<^verbatim>\<open>CHISEL_RADIUS\<close> (it binds \<^verbatim>\<open>RADIUS\<close>
  and \<^verbatim>\<open>R\<close>), so the comparison with the interaction radius raises \<^verbatim>\<open>NameError\<close> for
  every tip, speed and pixel.
\<close>

theorem poke_power_raises_NameError:
  "poke_power module_globals tx ty touch_velocity pebble_x pebble_y =
     Inl (NameError ''CHISEL_RADIUS'')"
  by (simp add: poke_power_def load_global_def module_globals_def)

end
